theory Spec2Isabelle
  imports Complex_Main "HOL-Library.Multiset"
begin

section \<open>Pascal plagiarism detector: scoring, fragment mapping and batch analysis\<close>

text \<open>
  A shallow embedding of \<^verbatim>\<open>PascalPlagiarismDetector\<close>
  (backend/src/services/plagiarism/pascalPlagiarismDetector.ts).

  Conventions of the embedding.
  \<^item> A JavaScript number that holds an index, a count or a line number is an \<open>int\<close>
    (a \<open>nat\<close> where it is the length of an array); a number that holds a similarity, a
    confidence or a threshold is a \<open>real\<close>. The arithmetic is exact: rounding of IEEE
    doubles, NaN and the infinities are outside the model, and a division whose divisor can be
    zero in the source is written out case by case.
  \<^item> A value that may be \<^verbatim>\<open>undefined\<close> is an \<open>option\<close>.
  \<^item> An exception is the \<open>Inl\<close> branch of a sum; the detector itself has no
    \<^verbatim>\<open>try\<close>/\<^verbatim>\<open>catch\<close> on the paths modelled here, so every
    \<open>Inl\<close> travels up unchanged.
  \<^item> The tokenizer, the fingerprint index, \<^verbatim>\<open>Pair\<close> and
    \<^verbatim>\<open>Fragment\<close> are imported by the detector from other modules; they
    enter the model as data (records) and as parameters (record \<open>Engine\<close>).
  \<^item> \<^verbatim>\<open>FragmentMapper\<close>, the second class of the file, has the same
    \<^verbatim>\<open>getLineNumber\<close>, \<^verbatim>\<open>extractCodeSnippet\<close>,
    \<^verbatim>\<open>calculateFragmentConfidence\<close>, \<^verbatim>\<open>createTokenPattern\<close> and
    line numbering (\<^verbatim>\<open>highlightCode\<close>), statement for statement; the definitions
    below stand for both.
  \<^item> \<^verbatim>\<open>processingTime\<close> (wall-clock time), console output and the
    \<^verbatim>\<open>initialized\<close> flag (which only rebuilds the stateless tokenizer) are
    left out.
\<close>

subsection \<open>JavaScript primitives used by the detector\<close>

text \<open>\<^verbatim>\<open>xs[i]\<close>: \<^verbatim>\<open>undefined\<close> outside the array.\<close>

definition js_index :: "'a list \<Rightarrow> int \<Rightarrow> 'a option" where
  "js_index xs i = (if 0 \<le> i \<and> i < int (length xs) then Some (xs ! nat i) else None)"

text \<open>
  \<^verbatim>\<open>a || b\<close> on a possibly undefined number: \<open>b\<close> whenever \<open>a\<close> is falsy, that
  is \<^verbatim>\<open>undefined\<close> or \<open>0\<close>.
\<close>

fun js_or :: "int option \<Rightarrow> int \<Rightarrow> int" where
  "js_or None b = b"
| "js_or (Some a) b = (if a = 0 then b else a)"

text \<open>\<^verbatim>\<open>a ?? b\<close>: \<open>b\<close> only when \<open>a\<close> is \<^verbatim>\<open>undefined\<close>.\<close>

fun js_nullish :: "'a option \<Rightarrow> 'a \<Rightarrow> 'a" where
  "js_nullish None b = b"
| "js_nullish (Some a) b = a"

text \<open>
  \<^verbatim>\<open>xs.slice(begin, end)\<close>: a negative bound counts from the end of the array,
  both bounds are clipped to the array, an empty range gives the empty array.
\<close>

definition js_slice :: "'a list \<Rightarrow> int \<Rightarrow> int \<Rightarrow> 'a list" where
  "js_slice xs b e =
     (let len = int (length xs);
          k = (if b < 0 then max (len + b) 0 else min b len);
          final = (if e < 0 then max (len + e) 0 else min e len)
      in take (nat (final - k)) (drop (nat k) xs))"

text \<open>\<^verbatim>\<open>s.split('\n')\<close> and \<^verbatim>\<open>lines.join('\n')\<close>.\<close>

definition newline :: char where
  "newline = CHR 0x0A"

fun split_nl :: "string \<Rightarrow> string list" where
  "split_nl [] = [[]]"
| "split_nl (c # cs) =
     (if c = newline then [] # split_nl cs
      else (case split_nl cs of [] \<Rightarrow> [[c]] | l # ls \<Rightarrow> (c # l) # ls))"

fun join_with :: "string \<Rightarrow> string list \<Rightarrow> string" where
  "join_with sep [] = []"
| "join_with sep [x] = x"
| "join_with sep (x # y # ys) = x @ sep @ join_with sep (y # ys)"

definition join_nl :: "string list \<Rightarrow> string" where
  "join_nl ls = join_with [newline] ls"

text \<open>\<^verbatim>\<open>n.toString()\<close> of an integer, and \<^verbatim>\<open>s.padStart(w)\<close>.\<close>

definition digit_char :: "nat \<Rightarrow> char" where
  "digit_char d = ''0123456789'' ! (d mod 10)"

fun nat_digits :: "nat \<Rightarrow> string" where
  "nat_digits n = (if n < 10 then [digit_char n] else nat_digits (n div 10) @ [digit_char (n mod 10)])"

declare nat_digits.simps [simp del]

definition toString :: "int \<Rightarrow> string" where
  "toString n = (if n < 0 then CHR ''-'' # nat_digits (nat (- n)) else nat_digits (nat n))"

definition padStart :: "nat \<Rightarrow> string \<Rightarrow> string" where
  "padStart w s = replicate (w - length s) CHR '' '' @ s"

subsection \<open>Data model\<close>

text \<open>\<^verbatim>\<open>Region\<close>: the source region of a token.\<close>

record Region =
  startRow :: int
  startCol :: int
  endRow :: int
  endCol :: int

text \<open>
  \<^verbatim>\<open>TokenizedFile\<close>: the token values and the position map. An entry of the map
  may be absent, which is what \<^verbatim>\<open>mapping[tokenIndex]?.startRow\<close> guards against.
\<close>

record TokenizedFile =
  tokens :: "string list"
  mapping :: "Region option list"

text \<open>One side of a paired occurrence: the token interval of the k-gram.\<close>

record Occurrence =
  start :: int
  stop :: int

record PairedOccurrence =
  left :: Occurrence
  right :: Occurrence

text \<open>
  \<^verbatim>\<open>Range\<close>: the fields \<^verbatim>\<open>from\<close>, \<^verbatim>\<open>to\<close> and
  \<^verbatim>\<open>length\<close> as the detector reads them.
\<close>

record Range =
  range_from :: int
  range_to :: int
  range_length :: int

record Fragment =
  pairs :: "PairedOccurrence list"
  leftkgrams :: Range
  rightkgrams :: Range

datatype FragmentType = EXACT | SIMILAR | STRUCTURAL

record LineRange =
  line_start :: int
  line_end :: int
  line_count :: int

record TokenRange =
  tok_start :: int
  tok_end :: int
  tok_tokens :: int

text \<open>
  \<^verbatim>\<open>MappedFragment\<close>. \<open>localSimilarity\<close> is \<open>None\<close> where the source computes
  NaN (see \<open>calculateLocalSimilarity\<close> below).
\<close>

record MappedFragment =
  fragmentId :: int
  confidence :: real
  fragmentType :: FragmentType
  file1Lines :: LineRange
  file2Lines :: LineRange
  file1TokenRange :: TokenRange
  file2TokenRange :: TokenRange
  sharedTokens :: "string list"
  tokenPattern :: string
  file1CodeSnippet :: string
  file2CodeSnippet :: string
  file1CodeWithLineNumbers :: string
  file2CodeWithLineNumbers :: string
  localSimilarity :: "real option"
  sharedFingerprints :: nat

subsection \<open>Helpers of the fragment mapping\<close>

definition getLineNumber :: "int \<Rightarrow> TokenizedFile \<Rightarrow> int" where
  "getLineNumber tokenIndex tokenizedFile =
     (if tokenIndex < 0 \<or> tokenIndex \<ge> int (length (mapping tokenizedFile)) then 1
      else js_or (map_option startRow (mapping tokenizedFile ! nat tokenIndex)) 1)"

definition extractCodeSnippet :: "string list \<Rightarrow> int \<Rightarrow> int \<Rightarrow> string" where
  "extractCodeSnippet lines startLine endLine =
     (let start = max 0 (startLine - 1);
          end = min (int (length lines)) endLine
      in join_nl (js_slice lines start end))"

text \<open>
  \<open>numberLine\<close> is the body of the arrow function that \<^verbatim>\<open>addLineNumbers\<close> maps
  over the lines: \<^verbatim>\<open>`${lineNumber.toString().padStart(3)}: ${line}`\<close>.
\<close>

definition numberLine :: "int \<Rightarrow> nat \<Rightarrow> string \<Rightarrow> string" where
  "numberLine startLine index line =
     (let lineNumber = startLine + int index
      in padStart 3 (toString lineNumber) @ '': '' @ line)"

definition addLineNumbers :: "string \<Rightarrow> int \<Rightarrow> string" where
  "addLineNumbers code startLine =
     (let lines = split_nl code
      in join_nl (map (\<lambda>(index, line). numberLine startLine index line)
                      (enumerate 0 lines)))"

definition calculateFragmentConfidence :: "Fragment \<Rightarrow> nat \<Rightarrow> real" where
  "calculateFragmentConfidence fragment tokenCount =
     (let confidence = 0;
          confidence = confidence + min 0.4 (real tokenCount / 50);
          confidence = confidence + min 0.3 (real (length (pairs fragment)) * 0.1);
          kgramRange = range_length (leftkgrams fragment);
          expectedPairs = max 1 (real_of_int kgramRange);
          coherence = real (length (pairs fragment)) / expectedPairs;
          confidence = confidence + min 0.3 (coherence * 0.3)
      in min 1.0 confidence)"

definition determineFragmentType :: "real \<Rightarrow> FragmentType" where
  "determineFragmentType c =
     (if c \<ge> 0.8 then EXACT else if c \<ge> 0.6 then SIMILAR else STRUCTURAL)"

definition createTokenPattern :: "string list \<Rightarrow> string" where
  "createTokenPattern toks =
     (if length toks = 0 then ''''
      else if length toks > 20 then
        (let start = join_with '' '' (js_slice toks 0 10);
             end = join_with '' '' (js_slice toks (- 10) (int (length toks)))
         in start @ '' ... '' @ end)
      else join_with '' '' toks)"

text \<open>
  \<^verbatim>\<open>Math.min(1.0, pairs.length / Math.max(1, sharedTokens.length / kgramSize))\<close>.
  With \<open>kgramSize = 0\<close> the inner quotient is \<open>Infinity\<close> for a non-empty token list
  (the result is then \<open>0\<close>) and NaN for an empty one (the result is then NaN, here
  \<open>None\<close>).
\<close>

definition calculateLocalSimilarity :: "nat \<Rightarrow> nat \<Rightarrow> int \<Rightarrow> real option" where
  "calculateLocalSimilarity pairCount tokenCount kgramSize =
     (if kgramSize = 0 then (if tokenCount = 0 then None else Some 0)
      else Some (min 1.0 (real pairCount / max 1 (real tokenCount / real_of_int kgramSize))))"

subsection \<open>The detector and what it imports\<close>

text \<open>The constructor's parameters (defaults 8, 15 and 1.0).\<close>

record Detector =
  kgramSize :: int
  windowSize :: int
  syntacticWeight :: real

record FileInput =
  name :: string
  content :: string

text \<open>
  \<^verbatim>\<open>Pair\<close>, as far as the detector reads it; \<open>buildFragments\<close> is the method
  \<^verbatim>\<open>pair.buildFragments(minimumOccurrences)\<close>.
\<close>

record Pair =
  similarity :: real
  overlap :: int
  longest :: int
  leftCovered :: int
  leftTotal :: int
  rightCovered :: int
  rightTotal :: int
  buildFragments :: "int \<Rightarrow> Fragment list"

datatype error = LexError

text \<open>
  The imported collaborators. \<open>tokenizeFile name content\<close> is
  \<^verbatim>\<open>PascalTokenizer.tokenizeFile\<close>, which either returns a tokenized file or
  throws. \<open>getPair k w f1 f2\<close> stands for building a
  \<^verbatim>\<open>FingerprintIndex(k, w, true)\<close>, adding \<open>[f1, f2]\<close> to it and asking it for
  the pair \<open>(f1, f2)\<close>.
\<close>

record Engine =
  tokenizeFile :: "string \<Rightarrow> string \<Rightarrow> error + TokenizedFile"
  getPair :: "int \<Rightarrow> int \<Rightarrow> TokenizedFile \<Rightarrow> TokenizedFile \<Rightarrow> Pair"

datatype Confidence = LOW | MEDIUM | HIGH | VERY_HIGH

text \<open>
  \<^verbatim>\<open>PlagiarismResult\<close>; its field \<^verbatim>\<open>confidence\<close> is named
  \<open>confidenceLabel\<close> here, apart from the numeric \<open>confidence\<close> of a fragment.
\<close>

record PlagiarismResult =
  syntacticSimilarity :: real
  overallSimilarity :: real
  sharedFragments :: int
  longestFragment :: int
  coverage1 :: real
  coverage2 :: real
  mappedFragments :: "MappedFragment list"
  totalMappedFragments :: nat
  significantMappedFragments :: nat
  totalSharedLines :: int
  totalSharedTokens :: nat
  isPlagiarism :: bool
  confidenceLabel :: Confidence
  file1 :: string
  file2 :: string

record BatchResult =
  results :: "PlagiarismResult list"
  threshold :: real
  totalComparisons :: nat
  suspiciousPairs :: nat

text \<open>The object returned by \<^verbatim>\<open>performSyntacticAnalysis\<close>.\<close>

record SyntacticResult =
  syn_similarity :: real
  syn_sharedFingerprints :: int
  syn_longestFragment :: int
  syn_coverage1 :: real
  syn_coverage2 :: real
  syn_pair :: Pair

text \<open>The object returned by \<^verbatim>\<open>mapFragments\<close>.\<close>

record MappingResult =
  map_mappedFragments :: "MappedFragment list"
  map_totalMappedFragments :: nat
  map_significantMappedFragments :: nat
  map_totalSharedLines :: int
  map_totalSharedTokens :: nat

subsection \<open>Fragment mapping\<close>

definition createMappedFragment ::
  "Detector \<Rightarrow> Fragment \<Rightarrow> int \<Rightarrow> TokenizedFile \<Rightarrow> TokenizedFile \<Rightarrow> string \<Rightarrow> string
     \<Rightarrow> MappedFragment" where
  "createMappedFragment this fragment fragId tokenizedFile1 tokenizedFile2 file1Code file2Code =
     (let firstPair = js_index (pairs fragment) 0;
          lastPair = js_index (pairs fragment) (int (length (pairs fragment)) - 1);
          file1TokenStart = js_or (map_option (\<lambda>p. start (left p)) firstPair)
                                  (range_from (leftkgrams fragment));
          file1TokenEnd = js_or (map_option (\<lambda>p. stop (left p)) lastPair)
                                (range_to (leftkgrams fragment) - 1);
          file2TokenStart = js_or (map_option (\<lambda>p. start (right p)) firstPair)
                                  (range_from (rightkgrams fragment));
          file2TokenEnd = js_or (map_option (\<lambda>p. stop (right p)) lastPair)
                                (range_to (rightkgrams fragment) - 1);
          shared = js_slice (tokens tokenizedFile1) file1TokenStart (file1TokenEnd + 1);
          file1LineStart = getLineNumber file1TokenStart tokenizedFile1;
          file1LineEnd = getLineNumber file1TokenEnd tokenizedFile1;
          file2LineStart = getLineNumber file2TokenStart tokenizedFile2;
          file2LineEnd = getLineNumber file2TokenEnd tokenizedFile2;
          file1LinesArr = split_nl file1Code;
          file2LinesArr = split_nl file2Code;
          file1Snippet = extractCodeSnippet file1LinesArr file1LineStart file1LineEnd;
          file2Snippet = extractCodeSnippet file2LinesArr file2LineStart file2LineEnd;
          file1WithNumbers = addLineNumbers file1Snippet file1LineStart;
          file2WithNumbers = addLineNumbers file2Snippet file2LineStart;
          conf = calculateFragmentConfidence fragment (length shared);
          ftype = determineFragmentType conf
      in \<lparr> fragmentId = fragId,
           confidence = conf,
           fragmentType = ftype,
           file1Lines = \<lparr> line_start = file1LineStart, line_end = file1LineEnd,
                          line_count = file1LineEnd - file1LineStart + 1 \<rparr>,
           file2Lines = \<lparr> line_start = file2LineStart, line_end = file2LineEnd,
                          line_count = file2LineEnd - file2LineStart + 1 \<rparr>,
           file1TokenRange = \<lparr> tok_start = file1TokenStart, tok_end = file1TokenEnd,
                               tok_tokens = file1TokenEnd - file1TokenStart + 1 \<rparr>,
           file2TokenRange = \<lparr> tok_start = file2TokenStart, tok_end = file2TokenEnd,
                               tok_tokens = file2TokenEnd - file2TokenStart + 1 \<rparr>,
           sharedTokens = shared,
           tokenPattern = createTokenPattern shared,
           file1CodeSnippet = file1Snippet,
           file2CodeSnippet = file2Snippet,
           file1CodeWithLineNumbers = file1WithNumbers,
           file2CodeWithLineNumbers = file2WithNumbers,
           localSimilarity =
             calculateLocalSimilarity (length (pairs fragment)) (length shared) (kgramSize this),
           sharedFingerprints = length (pairs fragment) \<rparr>)"

definition mapFragments ::
  "Detector \<Rightarrow> Pair \<Rightarrow> TokenizedFile \<Rightarrow> TokenizedFile \<Rightarrow> string \<Rightarrow> string \<Rightarrow> MappingResult" where
  "mapFragments this pair tokenizedFile1 tokenizedFile2 file1Code file2Code =
     (let fragments = buildFragments pair 1;
          mapped = map (\<lambda>(index, fragment).
                     createMappedFragment this fragment (int index + 1)
                       tokenizedFile1 tokenizedFile2 file1Code file2Code)
                   (enumerate 0 fragments);
          significantFragments =
            filter (\<lambda>f. confidence f \<ge> 0.3 \<and> int (length (sharedTokens f)) \<ge> kgramSize this)
                   mapped;
          sharedLines = foldl (\<lambda>sum f. sum + line_count (file1Lines f)) 0 significantFragments;
          sharedToks = foldl (\<lambda>sum f. sum + length (sharedTokens f)) 0 significantFragments
      in \<lparr> map_mappedFragments = significantFragments,
           map_totalMappedFragments = length mapped,
           map_significantMappedFragments = length significantFragments,
           map_totalSharedLines = sharedLines,
           map_totalSharedTokens = sharedToks \<rparr>)"

subsection \<open>Verdict of a pair\<close>

definition performSyntacticAnalysis ::
  "Engine \<Rightarrow> Detector \<Rightarrow> TokenizedFile \<Rightarrow> TokenizedFile \<Rightarrow> SyntacticResult" where
  "performSyntacticAnalysis engine this f0 f1 =
     (let pair = getPair engine (kgramSize this) (windowSize this) f0 f1
      in \<lparr> syn_similarity = similarity pair,
           syn_sharedFingerprints = overlap pair,
           syn_longestFragment = longest pair,
           syn_coverage1 = real_of_int (leftCovered pair) / max 1 (real_of_int (leftTotal pair)),
           syn_coverage2 = real_of_int (rightCovered pair) / max 1 (real_of_int (rightTotal pair)),
           syn_pair = pair \<rparr>)"

definition calculateAdaptiveThreshold :: "real \<Rightarrow> nat \<Rightarrow> real" where
  "calculateAdaptiveThreshold syntactic fragmentCount =
     (if syntactic > 0.8 \<and> fragmentCount > 5 then 0.7
      else if syntactic > 0.6 \<and> fragmentCount > 3 then 0.5
      else if syntactic > 0.4 \<and> fragmentCount > 1 then 0.35
      else 0.3)"

definition determineConfidence :: "real \<Rightarrow> SyntacticResult \<Rightarrow> MappingResult \<Rightarrow> Confidence" where
  "determineConfidence overall syntactic mappingResult =
     (let confidenceScore = (0::int);
          confidenceScore =
            (if overall > 0.8 then confidenceScore + 4
             else if overall > 0.6 then confidenceScore + 3
             else if overall > 0.4 then confidenceScore + 2
             else confidenceScore + 1);
          confidenceScore =
            (if syn_similarity syntactic > 0.7 then confidenceScore + 2 else confidenceScore);
          confidenceScore =
            (if syn_longestFragment syntactic > 10 then confidenceScore + 1 else confidenceScore);
          confidenceScore =
            (if syn_coverage1 syntactic > 0.5 \<or> syn_coverage2 syntactic > 0.5
             then confidenceScore + 1 else confidenceScore);
          confidenceScore =
            (if map_significantMappedFragments mappingResult > 5
             then confidenceScore + 2 else confidenceScore);
          confidenceScore =
            (if map_totalSharedLines mappingResult > 20 then confidenceScore + 1 else confidenceScore)
      in if confidenceScore \<ge> 8 then VERY_HIGH
         else if confidenceScore \<ge> 6 then HIGH
         else if confidenceScore \<ge> 4 then MEDIUM
         else LOW)"

text \<open>
  \<^verbatim>\<open>detectPlagiarism\<close>. The two calls of the tokenizer come first, in this order;
  an exception of either leaves the method at once.
\<close>

definition detectPlagiarism ::
  "Engine \<Rightarrow> Detector \<Rightarrow> FileInput \<Rightarrow> FileInput \<Rightarrow> real option \<Rightarrow> error + PlagiarismResult" where
  "detectPlagiarism engine this fileA fileB customThreshold =
     (case tokenizeFile engine (name fileA) (content fileA) of
        Inl e \<Rightarrow> Inl e
      | Inr tokenizedFile1 \<Rightarrow>
     (case tokenizeFile engine (name fileB) (content fileB) of
        Inl e \<Rightarrow> Inl e
      | Inr tokenizedFile2 \<Rightarrow>
     (let syntacticResult = performSyntacticAnalysis engine this tokenizedFile1 tokenizedFile2;
          mappingResult = mapFragments this (syn_pair syntacticResult)
                            tokenizedFile1 tokenizedFile2 (content fileA) (content fileB);
          overall = syn_similarity syntacticResult * syntacticWeight this;
          thr = js_nullish customThreshold
                  (calculateAdaptiveThreshold (syn_similarity syntacticResult)
                     (length (map_mappedFragments mappingResult)));
          plag = (overall \<ge> thr);
          conf = determineConfidence overall syntacticResult mappingResult
      in Inr \<lparr> syntacticSimilarity = syn_similarity syntacticResult,
               overallSimilarity = overall,
               sharedFragments = syn_sharedFingerprints syntacticResult,
               longestFragment = syn_longestFragment syntacticResult,
               coverage1 = syn_coverage1 syntacticResult,
               coverage2 = syn_coverage2 syntacticResult,
               mappedFragments = map_mappedFragments mappingResult,
               totalMappedFragments = map_totalMappedFragments mappingResult,
               significantMappedFragments = map_significantMappedFragments mappingResult,
               totalSharedLines = map_totalSharedLines mappingResult,
               totalSharedTokens = map_totalSharedTokens mappingResult,
               isPlagiarism = plag,
               confidenceLabel = conf,
               file1 = name fileA,
               file2 = name fileB \<rparr>)))"

subsection \<open>Batch analysis\<close>

definition calculateBatchThreshold :: "PlagiarismResult list \<Rightarrow> real" where
  "calculateBatchThreshold rs =
     (if length rs = 0 then 0.3
      else
        (let similarities = sort_key (\<lambda>x. - x) (map overallSimilarity rs);
             mean = foldl (\<lambda>sum sim. sum + sim) 0 similarities / real (length similarities);
             variance = foldl (\<lambda>sum sim. sum + (sim - mean) ^ 2) 0 similarities
                          / real (length similarities);
             stdDev = sqrt variance;
             thr = max 0.25 (mean + 1.5 * stdDev);
             thr = min thr 0.8
         in thr))"

text \<open>
  The state of the two nested loops: the results so far, \<^verbatim>\<open>totalComparisons\<close> and
  \<^verbatim>\<open>suspiciousPairs\<close>.
\<close>

type_synonym batch_state = "PlagiarismResult list \<times> nat \<times> nat"

text \<open>The inner loop, \<open>j\<close> from \<open>i + 1\<close>: \<open>fileI\<close> against each later file.\<close>

fun batch_inner ::
  "Engine \<Rightarrow> Detector \<Rightarrow> real option \<Rightarrow> FileInput \<Rightarrow> FileInput list \<Rightarrow> batch_state
     \<Rightarrow> error + batch_state" where
  "batch_inner engine this customThreshold fileI [] st = Inr st"
| "batch_inner engine this customThreshold fileI (fileJ # rest) (rs, comparisons, suspicious) =
     (case detectPlagiarism engine this fileI fileJ customThreshold of
        Inl e \<Rightarrow> Inl e
      | Inr result \<Rightarrow>
          batch_inner engine this customThreshold fileI rest
            (rs @ [result], comparisons + 1,
             if isPlagiarism result then suspicious + 1 else suspicious))"

text \<open>The outer loop, \<open>i\<close> over the files.\<close>

fun batch_outer ::
  "Engine \<Rightarrow> Detector \<Rightarrow> real option \<Rightarrow> FileInput list \<Rightarrow> batch_state \<Rightarrow> error + batch_state" where
  "batch_outer engine this customThreshold [] st = Inr st"
| "batch_outer engine this customThreshold (fileI # later) st =
     (case batch_inner engine this customThreshold fileI later st of
        Inl e \<Rightarrow> Inl e
      | Inr st' \<Rightarrow> batch_outer engine this customThreshold later st')"

definition detectBatchPlagiarism ::
  "Engine \<Rightarrow> Detector \<Rightarrow> FileInput list \<Rightarrow> real option \<Rightarrow> error + BatchResult" where
  "detectBatchPlagiarism engine this files customThreshold =
     (case batch_outer engine this customThreshold files ([], 0, 0) of
        Inl e \<Rightarrow> Inl e
      | Inr (rs, comparisons, suspicious) \<Rightarrow>
          (let thr = js_nullish customThreshold (calculateBatchThreshold rs)
           in Inr \<lparr> results = sort_key (\<lambda>r. - overallSimilarity r) rs,
                    threshold = thr,
                    totalComparisons = comparisons,
                    suspiciousPairs = suspicious \<rparr>))"

section \<open>Formulas of the specification\<close>

text \<open>
  The definitions of this section are not translations of the source: they write down the
  formulas of the specification, to be compared with the detector.
\<close>

text \<open>The confidence of a fragment as the specification writes it.\<close>

definition spec_fragment_confidence :: "nat \<Rightarrow> nat \<Rightarrow> int \<Rightarrow> real" where
  "spec_fragment_confidence T P R =
     min 1 (0.4 * min 1 (real T / 50) + 0.3 * min 1 (0.1 * real P)
            + 0.3 * min 1 ((real P / max 1 (real_of_int R)) * 1))"

text \<open>
  The additive score of the confidence label: the bucket of the overall similarity and the
  thresholds of the four labels, then the score with the contribution of the syntactic
  similarity as the specification words it (\<open>\<ge> 0.7\<close>).
\<close>

definition similarity_bucket :: "real \<Rightarrow> int" where
  "similarity_bucket s = (if s > 0.8 then 4 else if s > 0.6 then 3 else if s > 0.4 then 2 else 1)"

definition label_of_score :: "int \<Rightarrow> Confidence" where
  "label_of_score score =
     (if score \<ge> 8 then VERY_HIGH else if score \<ge> 6 then HIGH
      else if score \<ge> 4 then MEDIUM else LOW)"

definition spec_confidence_score :: "PlagiarismResult \<Rightarrow> int" where
  "spec_confidence_score r =
     similarity_bucket (overallSimilarity r)
     + (if syntacticSimilarity r \<ge> 0.7 then 2 else 0)
     + (if longestFragment r > 10 then 1 else 0)
     + (if coverage1 r > 0.5 \<or> coverage2 r > 0.5 then 1 else 0)
     + (if significantMappedFragments r > 5 then 2 else 0)
     + (if totalSharedLines r > 20 then 1 else 0)"

text \<open>Mean, population standard deviation and clamping.\<close>

definition mean :: "real list \<Rightarrow> real" where
  "mean xs = sum_list xs / real (length xs)"

definition stddev :: "real list \<Rightarrow> real" where
  "stddev xs = sqrt (sum_list (map (\<lambda>x. (x - mean xs) ^ 2) xs) / real (length xs))"

definition clamp :: "real \<Rightarrow> real \<Rightarrow> real \<Rightarrow> real" where
  "clamp x lo hi = (if x < lo then lo else if x > hi then hi else x)"

text \<open>
  The rendering of a numbered line as the specification words it: the line number padded
  on the right to three characters, then \<open>: \<close>, then the line.
\<close>

definition padEnd :: "nat \<Rightarrow> string \<Rightarrow> string" where
  "padEnd w s = s @ replicate (w - length s) CHR '' ''"

definition spec_numberLine :: "int \<Rightarrow> nat \<Rightarrow> string \<Rightarrow> string" where
  "spec_numberLine startLine index line =
     padEnd 3 (toString (startLine + int index)) @ '': '' @ line"

text \<open>
  The pairs \<open>(files[i], files[j])\<close> with \<open>i < j\<close>, in the order in which the two nested loops
  of \<^verbatim>\<open>detectBatchPlagiarism\<close> visit them, and the statement that \<open>r\<close> is the result
  of \<^verbatim>\<open>detectPlagiarism\<close> on the pair \<open>p\<close>.
\<close>

fun all_pairs :: "'a list \<Rightarrow> ('a \<times> 'a) list" where
  "all_pairs [] = []"
| "all_pairs (x # xs) = map (Pair x) xs @ all_pairs xs"

definition pair_ok ::
  "Engine \<Rightarrow> Detector \<Rightarrow> real option \<Rightarrow> FileInput \<times> FileInput \<Rightarrow> PlagiarismResult \<Rightarrow> bool" where
  "pair_ok engine this ct p r = (detectPlagiarism engine this (fst p) (snd p) ct = Inr r)"

section \<open>Sample inputs\<close>

text \<open>
  A tokenized file of twelve tokens on four lines, whose position map misses the entry of
  token \<open>9\<close>, and its source text.
\<close>

definition demo_tokens :: "string list" where
  "demo_tokens = [''program'', ''IDENT'', '';'', ''begin'', ''IDENT'', '':='', ''NUM'', ''+'', ''NUM'', '';'', ''end'', ''.'']"

definition demo_region :: "int \<Rightarrow> Region" where
  "demo_region r = \<lparr> startRow = r, startCol = 1, endRow = r, endCol = 2 \<rparr>"

definition demo_file :: TokenizedFile where
  "demo_file = \<lparr> tokens = demo_tokens,
                  mapping = [Some (demo_region 1), Some (demo_region 1), Some (demo_region 1),
                             Some (demo_region 2), Some (demo_region 3), Some (demo_region 3),
                             Some (demo_region 3), Some (demo_region 3), Some (demo_region 3),
                             None, Some (demo_region 4), Some (demo_region 4)] \<rparr>"

definition demo_code :: string where
  "demo_code = ''program P;'' @ [newline] @ ''begin'' @ [newline] @ ''  x := 1 + 2;'' @ [newline] @ ''end.''"

definition two_lines :: string where
  "two_lines = ''ab'' @ [newline] @ ''c''"


text \<open>
  A detector with the default parameters; a fragment of one pair over the tokens \<open>1\<close> to
  \<open>8\<close> of the left file; a fragment whose only pair has the token indices \<open>0\<close>.
\<close>

definition demo_detector :: Detector where
  "demo_detector = \<lparr> kgramSize = 8, windowSize = 15, syntacticWeight = 1 \<rparr>"

definition demo_fragment :: Fragment where
  "demo_fragment = \<lparr> pairs = [\<lparr> left = \<lparr> start = 1, stop = 8 \<rparr>, right = \<lparr> start = 2, stop = 9 \<rparr> \<rparr>],
                      leftkgrams = \<lparr> range_from = 1, range_to = 2, range_length = 1 \<rparr>,
                      rightkgrams = \<lparr> range_from = 2, range_to = 3, range_length = 1 \<rparr> \<rparr>"

definition zero_fragment :: Fragment where
  "zero_fragment = \<lparr> pairs = [\<lparr> left = \<lparr> start = 0, stop = 0 \<rparr>, right = \<lparr> start = 0, stop = 0 \<rparr> \<rparr>],
                      leftkgrams = \<lparr> range_from = 3, range_to = 5, range_length = 2 \<rparr>,
                      rightkgrams = \<lparr> range_from = 4, range_to = 7, range_length = 3 \<rparr> \<rparr>"

text \<open>
  A stand-in for the tokenizer and the index. The tokenizer fails on the text \<open>{\<close> (an
  unterminated comment), yields no token on the empty text and \<open>demo_file\<close> otherwise; the
  index reports similarity \<open>0\<close> and no fragment when a file has no token, and similarity
  \<open>s\<close> with the one fragment \<open>demo_fragment\<close> otherwise.
\<close>

definition demo_pair :: "real \<Rightarrow> Fragment list \<Rightarrow> Pair" where
  "demo_pair s frs = \<lparr> similarity = s, overlap = int (length frs), longest = 12,
                        leftCovered = 1, leftTotal = 1, rightCovered = 1, rightTotal = 1,
                        buildFragments = (\<lambda>minimumOccurrences. frs) \<rparr>"

definition demo_engine :: "real \<Rightarrow> Engine" where
  "demo_engine s =
     \<lparr> tokenizeFile = (\<lambda>path text.
          if text = ''{'' then Inl LexError
          else if text = [] then Inr \<lparr> tokens = [], mapping = [] \<rparr>
          else Inr demo_file),
       getPair = (\<lambda>k w f g.
          if tokens f = [] \<or> tokens g = [] then demo_pair 0 [] else demo_pair s [demo_fragment]) \<rparr>"

definition demo_input :: "string \<Rightarrow> FileInput" where
  "demo_input path = \<lparr> name = path, content = demo_code \<rparr>"



text \<open>The results of the detector on the sample pair and on the sample batch.\<close>

definition demo_result :: "real \<Rightarrow> real option \<Rightarrow> PlagiarismResult" where
  "demo_result s customThreshold =
     projr (detectPlagiarism (demo_engine s) demo_detector
              (demo_input ''a.pas'') (demo_input ''b.pas'') customThreshold)"

definition demo_batch :: "real \<Rightarrow> real option \<Rightarrow> BatchResult" where
  "demo_batch s customThreshold =
     projr (detectBatchPlagiarism (demo_engine s) demo_detector
              [demo_input ''a.pas'', demo_input ''b.pas''] customThreshold)"

section \<open>Properties\<close>

subsection \<open>Fields of a mapped fragment and of a result\<close>

lemma cmf_confidence:
  "confidence (createMappedFragment this fragment fid tf1 tf2 c1 c2) =
     calculateFragmentConfidence fragment
       (length (sharedTokens (createMappedFragment this fragment fid tf1 tf2 c1 c2)))"
  by (simp add: createMappedFragment_def Let_def)

lemma cmf_sharedFingerprints:
  "sharedFingerprints (createMappedFragment this fragment fid tf1 tf2 c1 c2) = length (pairs fragment)"
  by (simp add: createMappedFragment_def Let_def)

lemma cmf_sharedTokens:
  "sharedTokens (createMappedFragment this fragment fid tf1 tf2 c1 c2) =
     js_slice (tokens tf1)
       (js_or (map_option (\<lambda>p. start (left p)) (js_index (pairs fragment) 0))
              (range_from (leftkgrams fragment)))
       (js_or (map_option (\<lambda>p. stop (left p))
                 (js_index (pairs fragment) (int (length (pairs fragment)) - 1)))
              (range_to (leftkgrams fragment) - 1) + 1)"
  by (simp add: createMappedFragment_def Let_def)

lemma detect_Inr:
  assumes "detectPlagiarism engine this a b ct = Inr r"
  obtains tf1 tf2 where
    "tokenizeFile engine (name a) (content a) = Inr tf1"
    "tokenizeFile engine (name b) (content b) = Inr tf2"
    "syntacticSimilarity r = similarity (getPair engine (kgramSize this) (windowSize this) tf1 tf2)"
    "mappedFragments r = map_mappedFragments (mapFragments this (getPair engine (kgramSize this) (windowSize this) tf1 tf2) tf1 tf2 (content a) (content b))"
    "totalSharedLines r = map_totalSharedLines (mapFragments this (getPair engine (kgramSize this) (windowSize this) tf1 tf2) tf1 tf2 (content a) (content b))"
    "longestFragment r = longest (getPair engine (kgramSize this) (windowSize this) tf1 tf2)"
    "coverage1 r = real_of_int (leftCovered (getPair engine (kgramSize this) (windowSize this) tf1 tf2))
                     / max 1 (real_of_int (leftTotal (getPair engine (kgramSize this) (windowSize this) tf1 tf2)))"
    "coverage2 r = real_of_int (rightCovered (getPair engine (kgramSize this) (windowSize this) tf1 tf2))
                     / max 1 (real_of_int (rightTotal (getPair engine (kgramSize this) (windowSize this) tf1 tf2)))"
    "file1 r = name a" "file2 r = name b"
  using assms
  by (auto simp: detectPlagiarism_def performSyntacticAnalysis_def Let_def split: sum.splits)

lemma detect_total:
  assumes "tokenizeFile engine (name a) (content a) = Inr tf1"
      and "tokenizeFile engine (name b) (content b) = Inr tf2"
  shows "\<exists>r. detectPlagiarism engine this a b ct = Inr r"
  using assms by (simp add: detectPlagiarism_def Let_def)


lemma detect_overall:
  "detectPlagiarism engine this a b ct = Inr r \<Longrightarrow>
     overallSimilarity r = syntacticSimilarity r * syntacticWeight this"
  by (auto simp: detectPlagiarism_def performSyntacticAnalysis_def Let_def split: sum.splits)

lemma detect_isPlagiarism:
  "detectPlagiarism engine this a b ct = Inr r \<Longrightarrow>
     isPlagiarism r = (overallSimilarity r \<ge> js_nullish ct
        (calculateAdaptiveThreshold (syntacticSimilarity r) (length (mappedFragments r))))"
  by (auto simp: detectPlagiarism_def performSyntacticAnalysis_def Let_def split: sum.splits)

lemma detect_significant:
  "detectPlagiarism engine this a b ct = Inr r \<Longrightarrow>
     significantMappedFragments r = length (mappedFragments r)"
  by (auto simp: detectPlagiarism_def mapFragments_def Let_def split: sum.splits)

lemma determineConfidence_closed:
  "determineConfidence overall syntactic mappingResult =
     label_of_score
       (similarity_bucket overall
        + (if syn_similarity syntactic > 0.7 then 2 else 0)
        + (if syn_longestFragment syntactic > 10 then 1 else 0)
        + (if syn_coverage1 syntactic > 0.5 \<or> syn_coverage2 syntactic > 0.5 then 1 else 0)
        + (if map_significantMappedFragments mappingResult > 5 then 2 else 0)
        + (if map_totalSharedLines mappingResult > 20 then 1 else 0))"
  unfolding determineConfidence_def Let_def similarity_bucket_def
  by (simp add: label_of_score_def)

lemma detect_confidenceLabel:
  "detectPlagiarism engine this a b ct = Inr r \<Longrightarrow>
     confidenceLabel r =
       label_of_score
         (similarity_bucket (overallSimilarity r)
          + (if syntacticSimilarity r > 0.7 then 2 else 0)
          + (if longestFragment r > 10 then 1 else 0)
          + (if coverage1 r > 0.5 \<or> coverage2 r > 0.5 then 1 else 0)
          + (if significantMappedFragments r > 5 then 2 else 0)
          + (if totalSharedLines r > 20 then 1 else 0))"
  unfolding detectPlagiarism_def Let_def determineConfidence_closed
  by (auto split: sum.splits)


subsection \<open>Token ranges, line lookup and fragment confidence\<close>

lemma cmf_tokenRanges:
  "file1TokenRange (createMappedFragment this fragment fid tf1 tf2 c1 c2) =
     (let s = js_or (map_option (\<lambda>p. start (left p)) (js_index (pairs fragment) 0))
                    (range_from (leftkgrams fragment));
          e = js_or (map_option (\<lambda>p. stop (left p))
                       (js_index (pairs fragment) (int (length (pairs fragment)) - 1)))
                    (range_to (leftkgrams fragment) - 1)
      in \<lparr> tok_start = s, tok_end = e, tok_tokens = e - s + 1 \<rparr>)"
  "file2TokenRange (createMappedFragment this fragment fid tf1 tf2 c1 c2) =
     (let s = js_or (map_option (\<lambda>p. start (right p)) (js_index (pairs fragment) 0))
                    (range_from (rightkgrams fragment));
          e = js_or (map_option (\<lambda>p. stop (right p))
                       (js_index (pairs fragment) (int (length (pairs fragment)) - 1)))
                    (range_to (rightkgrams fragment) - 1)
      in \<lparr> tok_start = s, tok_end = e, tok_tokens = e - s + 1 \<rparr>)"
  by (simp_all add: createMappedFragment_def Let_def)

lemma js_index_first: "xs \<noteq> [] \<Longrightarrow> js_index xs 0 = Some (hd xs)"
  by (cases xs) (simp_all add: js_index_def)

lemma js_index_last: "xs \<noteq> [] \<Longrightarrow> js_index xs (int (length xs) - 1) = Some (last xs)"
  by (cases xs rule: rev_cases) (simp_all add: js_index_def nth_append)

text \<open>
  Claim C9. A token index taken from a paired occurrence is replaced by the bound of the
  k-gram range whenever it is \<open>0\<close>, because \<^verbatim>\<open>||\<close> tests for a falsy value and
  not for a missing one: for a fragment with at least one pair, a first pair whose left
  \<^verbatim>\<open>start\<close> is \<open>0\<close> yields \<^verbatim>\<open>leftkgrams.from\<close> as the start of the token
  range of file 1, a last pair whose left \<^verbatim>\<open>stop\<close> is \<open>0\<close> yields
  \<^verbatim>\<open>leftkgrams.to - 1\<close> as its end, and likewise on the right side with
  \<^verbatim>\<open>rightkgrams\<close>.
\<close>

theorem falsy_zero_token_index_falls_back:
  fixes this fragment fid tf1 tf2 c1 c2
  defines "m \<equiv> createMappedFragment this fragment fid tf1 tf2 c1 c2"
  assumes "pairs fragment \<noteq> []"
  shows "(start (left (hd (pairs fragment))) = 0 \<longrightarrow>
            tok_start (file1TokenRange m) = range_from (leftkgrams fragment))
       \<and> (stop (left (last (pairs fragment))) = 0 \<longrightarrow>
            tok_end (file1TokenRange m) = range_to (leftkgrams fragment) - 1)
       \<and> (start (right (hd (pairs fragment))) = 0 \<longrightarrow>
            tok_start (file2TokenRange m) = range_from (rightkgrams fragment))
       \<and> (stop (right (last (pairs fragment))) = 0 \<longrightarrow>
            tok_end (file2TokenRange m) = range_to (rightkgrams fragment) - 1)"
  unfolding m_def cmf_tokenRanges
  using assms(2) by (simp add: Let_def js_index_first js_index_last)

theorem falsy_zero_token_index_witness:
  "pairs zero_fragment \<noteq> []
   \<and> start (left (hd (pairs zero_fragment))) = 0
   \<and> stop (left (last (pairs zero_fragment))) = 0
   \<and> start (right (hd (pairs zero_fragment))) = 0
   \<and> stop (right (last (pairs zero_fragment))) = 0
   \<and> tok_start (file1TokenRange (createMappedFragment demo_detector zero_fragment 1 demo_file demo_file demo_code demo_code)) = 3
   \<and> tok_end (file1TokenRange (createMappedFragment demo_detector zero_fragment 1 demo_file demo_file demo_code demo_code)) = 4
   \<and> tok_start (file2TokenRange (createMappedFragment demo_detector zero_fragment 1 demo_file demo_file demo_code demo_code)) = 4
   \<and> tok_end (file2TokenRange (createMappedFragment demo_detector zero_fragment 1 demo_file demo_file demo_code demo_code)) = 6"
proof -
  have ne: "pairs zero_fragment \<noteq> []" by (simp add: zero_fragment_def)
  show ?thesis
    using falsy_zero_token_index_falls_back [OF ne, of demo_detector 1 demo_file demo_file demo_code demo_code]
    by (simp add: zero_fragment_def)
qed

text \<open>
  Claim C6. \<open>getLineNumber\<close> is a total function into the integers (it has no failing
  branch), and it returns \<open>1\<close> when the token index is negative, when it is at or past the
  end of the position map, and when the entry of the map at that index is missing.
\<close>

theorem getLineNumber_degrades_to_1:
  assumes "tokenIndex < 0 \<or> tokenIndex \<ge> int (length (mapping tokenizedFile))
           \<or> js_index (mapping tokenizedFile) tokenIndex = Some None"
  shows "getLineNumber tokenIndex tokenizedFile = 1"
  using assms by (auto simp: getLineNumber_def js_index_def split: if_splits)

theorem getLineNumber_degrades_witness:
  "(- 1 < (0::int) \<or> - 1 \<ge> int (length (mapping demo_file)) \<or> js_index (mapping demo_file) (- 1) = Some None)
   \<and> getLineNumber (- 1) demo_file = 1
   \<and> (12 < (0::int) \<or> 12 \<ge> int (length (mapping demo_file)) \<or> js_index (mapping demo_file) 12 = Some None)
   \<and> getLineNumber 12 demo_file = 1
   \<and> (9 < (0::int) \<or> 9 \<ge> int (length (mapping demo_file)) \<or> js_index (mapping demo_file) 9 = Some None)
   \<and> getLineNumber 9 demo_file = 1"
proof -
  have a: "- 1 < (0::int) \<or> - 1 \<ge> int (length (mapping demo_file)) \<or> js_index (mapping demo_file) (- 1) = Some None"
    by simp
  have b: "12 < (0::int) \<or> 12 \<ge> int (length (mapping demo_file)) \<or> js_index (mapping demo_file) 12 = Some None"
    by (simp add: demo_file_def)
  have c: "9 < (0::int) \<or> 9 \<ge> int (length (mapping demo_file)) \<or> js_index (mapping demo_file) 9 = Some None"
    by (simp add: demo_file_def js_index_def)
  show ?thesis
    using a b c getLineNumber_degrades_to_1 [OF a] getLineNumber_degrades_to_1 [OF b]
      getLineNumber_degrades_to_1 [OF c]
    by simp
qed

text \<open>
  Claim C1, as amended. The confidence of a mapped fragment is
  \<open>min(1, min(0.4, T/50) + min(0.3, 0.1 P) + min(0.3, 0.3 (P / max(1, R))))\<close> with
  \<open>T\<close> the number of shared tokens, \<open>P\<close> the number of shared k-gram pairs and \<open>R\<close> the
  length of the left k-gram range: the caps \<open>0.4\<close> and \<open>0.3\<close> are applied to \<open>T/50\<close> and
  to \<open>0.1 P\<close> themselves; the two quotients are not scaled by the weights first.
\<close>

theorem fragment_confidence_formula:
  "confidence (createMappedFragment this fragment fid tf1 tf2 c1 c2) =
     min 1 (min 0.4 (real (length (sharedTokens (createMappedFragment this fragment fid tf1 tf2 c1 c2))) / 50)
            + min 0.3 (0.1 * real (sharedFingerprints (createMappedFragment this fragment fid tf1 tf2 c1 c2)))
            + min 0.3 (0.3 * (real (sharedFingerprints (createMappedFragment this fragment fid tf1 tf2 c1 c2))
                              / max 1 (real_of_int (range_length (leftkgrams fragment))))))"
  unfolding cmf_confidence cmf_sharedFingerprints
  by (simp add: calculateFragmentConfidence_def Let_def mult.commute)

text \<open>
  The formula of claim C1 as the specification writes it fails on a fragment of one pair that
  covers eight tokens: the detector computes \<open>0.16 + 0.1 + 0.3 = 0.56\<close>, the formula gives
  \<open>0.064 + 0.03 + 0.3 = 0.394\<close>.
\<close>

theorem fragment_confidence_spec_formula_counterexample:
  "confidence (createMappedFragment demo_detector demo_fragment 1 demo_file demo_file demo_code demo_code)
   \<noteq> spec_fragment_confidence
        (length (sharedTokens (createMappedFragment demo_detector demo_fragment 1 demo_file demo_file demo_code demo_code)))
        (sharedFingerprints (createMappedFragment demo_detector demo_fragment 1 demo_file demo_file demo_code demo_code))
        (range_length (leftkgrams demo_fragment))"
  unfolding cmf_confidence cmf_sharedFingerprints cmf_sharedTokens
  by (simp add: js_index_def js_slice_def demo_fragment_def demo_file_def demo_tokens_def
      calculateFragmentConfidence_def spec_fragment_confidence_def)


subsection \<open>The detector on the sample pair\<close>

lemma cmf_file1Lines:
  "file1Lines (createMappedFragment this fragment fid tf1 tf2 c1 c2) =
     (let s = getLineNumber (tok_start (file1TokenRange (createMappedFragment this fragment fid tf1 tf2 c1 c2))) tf1;
          e = getLineNumber (tok_end (file1TokenRange (createMappedFragment this fragment fid tf1 tf2 c1 c2))) tf1
      in \<lparr> line_start = s, line_end = e, line_count = e - s + 1 \<rparr>)"
  by (simp add: createMappedFragment_def Let_def)

lemma demo_tokenize:
  "tokenizeFile (demo_engine s) (name (demo_input p)) (content (demo_input p)) = Inr demo_file"
  by (simp add: demo_engine_def demo_input_def demo_code_def)

lemma demo_getPair:
  "getPair (demo_engine s) k w demo_file demo_file = demo_pair s [demo_fragment]"
  by (simp add: demo_engine_def demo_file_def demo_tokens_def)

lemma demo_detect:
  "detectPlagiarism (demo_engine s) demo_detector (demo_input ''a.pas'') (demo_input ''b.pas'') ct
     = Inr (demo_result s ct)"
proof -
  obtain r where "detectPlagiarism (demo_engine s) demo_detector (demo_input ''a.pas'') (demo_input ''b.pas'') ct = Inr r"
    using detect_total [OF demo_tokenize demo_tokenize] by blast
  then show ?thesis by (simp add: demo_result_def)
qed

lemma demo_fragment_mapped:
  "tok_start (file1TokenRange (createMappedFragment this demo_fragment fid tf1 tf2 c1 c2)) = 1"
  "tok_end (file1TokenRange (createMappedFragment this demo_fragment fid tf1 tf2 c1 c2)) = 8"
  "length (sharedTokens (createMappedFragment this demo_fragment fid demo_file tf2 c1 c2)) = 8"
  "confidence (createMappedFragment this demo_fragment fid demo_file tf2 c1 c2) = 14 / 25"
  "line_count (file1Lines (createMappedFragment this demo_fragment fid demo_file tf2 c1 c2)) = 3"
proof -
  show a: "tok_start (file1TokenRange (createMappedFragment this demo_fragment fid tf1 tf2 c1 c2)) = 1"
    and b: "tok_end (file1TokenRange (createMappedFragment this demo_fragment fid tf1 tf2 c1 c2)) = 8"
    for tf1
    by (simp_all add: cmf_tokenRanges Let_def demo_fragment_def js_index_def)
  show c: "length (sharedTokens (createMappedFragment this demo_fragment fid demo_file tf2 c1 c2)) = 8"
    unfolding cmf_sharedTokens
    by (simp add: js_index_def js_slice_def demo_fragment_def demo_file_def demo_tokens_def)
  show "confidence (createMappedFragment this demo_fragment fid demo_file tf2 c1 c2) = 14 / 25"
    unfolding cmf_confidence c
    by (simp add: calculateFragmentConfidence_def demo_fragment_def)
  show "line_count (file1Lines (createMappedFragment this demo_fragment fid demo_file tf2 c1 c2)) = 3"
    unfolding cmf_file1Lines a b
    by (simp add: getLineNumber_def demo_file_def demo_region_def)
qed

lemma demo_mapFragments:
  "map_mappedFragments (mapFragments demo_detector (demo_pair s [demo_fragment]) demo_file demo_file c1 c2)
     = [createMappedFragment demo_detector demo_fragment 1 demo_file demo_file c1 c2]"
  "map_totalSharedLines (mapFragments demo_detector (demo_pair s [demo_fragment]) demo_file demo_file c1 c2) = 3"
  by (simp_all add: mapFragments_def Let_def demo_pair_def demo_fragment_mapped demo_detector_def)

lemma demo_result_fields:
  "syntacticSimilarity (demo_result s ct) = s"
  "overallSimilarity (demo_result s ct) = s"
  "length (mappedFragments (demo_result s ct)) = 1"
  "significantMappedFragments (demo_result s ct) = 1"
  "totalSharedLines (demo_result s ct) = 3"
  "longestFragment (demo_result s ct) = 12"
  "coverage1 (demo_result s ct) = 1"
  "coverage2 (demo_result s ct) = 1"
proof -
  note d = demo_detect [of s ct]
  obtain tf1 tf2 where t:
    "tokenizeFile (demo_engine s) (name (demo_input ''a.pas'')) (content (demo_input ''a.pas'')) = Inr tf1"
    "tokenizeFile (demo_engine s) (name (demo_input ''b.pas'')) (content (demo_input ''b.pas'')) = Inr tf2"
    and f:
    "syntacticSimilarity (demo_result s ct) = similarity (getPair (demo_engine s) (kgramSize demo_detector) (windowSize demo_detector) tf1 tf2)"
    "mappedFragments (demo_result s ct) = map_mappedFragments (mapFragments demo_detector (getPair (demo_engine s) (kgramSize demo_detector) (windowSize demo_detector) tf1 tf2) tf1 tf2 (content (demo_input ''a.pas'')) (content (demo_input ''b.pas'')))"
    "totalSharedLines (demo_result s ct) = map_totalSharedLines (mapFragments demo_detector (getPair (demo_engine s) (kgramSize demo_detector) (windowSize demo_detector) tf1 tf2) tf1 tf2 (content (demo_input ''a.pas'')) (content (demo_input ''b.pas'')))"
    "longestFragment (demo_result s ct) = longest (getPair (demo_engine s) (kgramSize demo_detector) (windowSize demo_detector) tf1 tf2)"
    "coverage1 (demo_result s ct) = real_of_int (leftCovered (getPair (demo_engine s) (kgramSize demo_detector) (windowSize demo_detector) tf1 tf2))
                     / max 1 (real_of_int (leftTotal (getPair (demo_engine s) (kgramSize demo_detector) (windowSize demo_detector) tf1 tf2)))"
    "coverage2 (demo_result s ct) = real_of_int (rightCovered (getPair (demo_engine s) (kgramSize demo_detector) (windowSize demo_detector) tf1 tf2))
                     / max 1 (real_of_int (rightTotal (getPair (demo_engine s) (kgramSize demo_detector) (windowSize demo_detector) tf1 tf2)))"
    by (rule detect_Inr [OF d])
  from t have tf: "tf1 = demo_file" "tf2 = demo_file"
    by (simp_all add: demo_tokenize)
  show a: "syntacticSimilarity (demo_result s ct) = s"
    and b: "length (mappedFragments (demo_result s ct)) = 1"
    and "totalSharedLines (demo_result s ct) = 3"
    and "longestFragment (demo_result s ct) = 12"
    and "coverage1 (demo_result s ct) = 1"
    and "coverage2 (demo_result s ct) = 1"
    unfolding f tf demo_getPair demo_mapFragments
    by (simp_all add: demo_pair_def)
  show "overallSimilarity (demo_result s ct) = s"
    using detect_overall [OF d] a by (simp add: demo_detector_def)
  show "significantMappedFragments (demo_result s ct) = 1"
    using detect_significant [OF d] b by simp
qed


subsection \<open>Verdict and confidence label of a pair\<close>

text \<open>
  Claim C2. Without a threshold of the caller, the verdict of \<open>detectPlagiarism\<close> is
  \<open>overallSimilarity \<ge> \<tau>\<close>, where \<open>\<tau>\<close> is \<open>0.7\<close> if \<open>s > 0.8\<close> and \<open>F > 5\<close>, else
  \<open>0.5\<close> if \<open>s > 0.6\<close> and \<open>F > 3\<close>, else \<open>0.35\<close> if \<open>s > 0.4\<close> and \<open>F > 1\<close>, else
  \<open>0.3\<close>; \<open>s\<close> is the syntactic similarity and \<open>F\<close> the number of significant fragments,
  which is the number of mapped fragments of the result.
\<close>

theorem adaptive_threshold_decides_verdict:
  assumes "detectPlagiarism engine this a b None = Inr r"
  shows "significantMappedFragments r = length (mappedFragments r)
       \<and> isPlagiarism r =
          (overallSimilarity r \<ge>
             (if syntacticSimilarity r > 0.8 \<and> significantMappedFragments r > 5 then 0.7
              else if syntacticSimilarity r > 0.6 \<and> significantMappedFragments r > 3 then 0.5
              else if syntacticSimilarity r > 0.4 \<and> significantMappedFragments r > 1 then 0.35
              else 0.3))"
  using detect_isPlagiarism [OF assms] detect_significant [OF assms]
  by (simp add: calculateAdaptiveThreshold_def)

theorem adaptive_threshold_decides_verdict_witness:
  "detectPlagiarism (demo_engine (7/10)) demo_detector (demo_input ''a.pas'') (demo_input ''b.pas'') None
     = Inr (demo_result (7/10) None)
   \<and> significantMappedFragments (demo_result (7/10) None) = 1
   \<and> syntacticSimilarity (demo_result (7/10) None) = 7/10
   \<and> isPlagiarism (demo_result (7/10) None)"
  using adaptive_threshold_decides_verdict [OF demo_detect [of "7/10" None]]
  by (simp add: demo_result_fields demo_detect)

text \<open>
  Claim C3, as amended. The confidence label of a result is derived from the additive score
  with the contributions: the bucket of \<open>overallSimilarity\<close> (\<open>4\<close> above \<open>0.8\<close>, \<open>3\<close>
  above \<open>0.6\<close>, \<open>2\<close> above \<open>0.4\<close>, else \<open>1\<close>), \<open>+2\<close> when the syntactic similarity is
  strictly greater than \<open>0.7\<close>, \<open>+1\<close> when \<open>longestFragment > 10\<close>, \<open>+1\<close> when either
  coverage is above \<open>0.5\<close>, \<open>+2\<close> when \<open>significantMappedFragments > 5\<close>, \<open>+1\<close> when
  \<open>totalSharedLines > 20\<close>; the label is \<open>VERY_HIGH\<close> from \<open>8\<close>, \<open>HIGH\<close> from \<open>6\<close>,
  \<open>MEDIUM\<close> from \<open>4\<close>, else \<open>LOW\<close>.
\<close>

theorem confidence_label_from_score:
  assumes "detectPlagiarism engine this a b ct = Inr r"
  shows "confidenceLabel r =
       label_of_score
         (similarity_bucket (overallSimilarity r)
          + (if syntacticSimilarity r > 0.7 then 2 else 0)
          + (if longestFragment r > 10 then 1 else 0)
          + (if coverage1 r > 0.5 \<or> coverage2 r > 0.5 then 1 else 0)
          + (if significantMappedFragments r > 5 then 2 else 0)
          + (if totalSharedLines r > 20 then 1 else 0))"
  using assms by (rule detect_confidenceLabel)

theorem confidence_label_from_score_witness:
  "detectPlagiarism (demo_engine (9/10)) demo_detector (demo_input ''a.pas'') (demo_input ''b.pas'') None
     = Inr (demo_result (9/10) None)
   \<and> confidenceLabel (demo_result (9/10) None) = VERY_HIGH"
  using confidence_label_from_score [OF demo_detect [of "9/10" None]]
  by (simp add: demo_result_fields demo_detect similarity_bucket_def label_of_score_def)

text \<open>
  With the contribution of the syntactic similarity read as in the specification
  (\<open>\<ge> 0.7\<close>), claim C3 fails on a pair of syntactic similarity exactly \<open>0.7\<close>: the
  detector scores \<open>3 + 0 + 1 + 1 = 5\<close> and answers \<open>MEDIUM\<close>, the specification scores
  \<open>3 + 2 + 1 + 1 = 7\<close>, which is \<open>HIGH\<close>.
\<close>

theorem confidence_label_spec_score_counterexample:
  "detectPlagiarism (demo_engine (7/10)) demo_detector (demo_input ''a.pas'') (demo_input ''b.pas'') None
     = Inr (demo_result (7/10) None)
   \<and> confidenceLabel (demo_result (7/10) None) = MEDIUM
   \<and> label_of_score (spec_confidence_score (demo_result (7/10) None)) = HIGH"
  using detect_confidenceLabel [OF demo_detect [of "7/10" None]]
  by (simp add: demo_result_fields demo_detect similarity_bucket_def label_of_score_def
      spec_confidence_score_def)

text \<open>
  Claim C5. For a fixed pair of files and two thresholds \<open>t1 \<le> t2\<close> of the caller, a
  verdict of plagiarism under \<open>t2\<close> is a verdict of plagiarism under \<open>t1\<close>: raising the
  threshold never turns the verdict from false to true.
\<close>

theorem threshold_monotonicity:
  assumes "t1 \<le> t2"
      and "detectPlagiarism engine this a b (Some t2) = Inr r2"
      and "isPlagiarism r2"
  shows "\<exists>r1. detectPlagiarism engine this a b (Some t1) = Inr r1 \<and> isPlagiarism r1"
proof -
  obtain tf1 tf2 where
    t: "tokenizeFile engine (name a) (content a) = Inr tf1"
       "tokenizeFile engine (name b) (content b) = Inr tf2"
    and s2: "syntacticSimilarity r2
               = similarity (getPair engine (kgramSize this) (windowSize this) tf1 tf2)"
    by (rule detect_Inr [OF assms(2)])
  obtain r1 where r1: "detectPlagiarism engine this a b (Some t1) = Inr r1"
    using detect_total [OF t] by blast
  obtain tf1' tf2' where
    t': "tokenizeFile engine (name a) (content a) = Inr tf1'"
        "tokenizeFile engine (name b) (content b) = Inr tf2'"
    and s1: "syntacticSimilarity r1
               = similarity (getPair engine (kgramSize this) (windowSize this) tf1' tf2')"
    by (rule detect_Inr [OF r1])
  from t t' have "tf1' = tf1" "tf2' = tf2" by simp_all
  with s1 s2 have "syntacticSimilarity r1 = syntacticSimilarity r2" by simp
  then have "overallSimilarity r1 = overallSimilarity r2"
    using detect_overall [OF r1] detect_overall [OF assms(2)] by simp
  moreover have "overallSimilarity r2 \<ge> t2"
    using detect_isPlagiarism [OF assms(2)] assms(3) by simp
  ultimately have "isPlagiarism r1"
    using detect_isPlagiarism [OF r1] assms(1) by simp
  with r1 show ?thesis by blast
qed

theorem threshold_monotonicity_witness:
  "(1/2 :: real) \<le> 7/10
   \<and> detectPlagiarism (demo_engine (7/10)) demo_detector (demo_input ''a.pas'') (demo_input ''b.pas'') (Some (7/10))
       = Inr (demo_result (7/10) (Some (7/10)))
   \<and> isPlagiarism (demo_result (7/10) (Some (7/10)))
   \<and> detectPlagiarism (demo_engine (7/10)) demo_detector (demo_input ''a.pas'') (demo_input ''b.pas'') (Some (1/2))
       = Inr (demo_result (7/10) (Some (1/2)))
   \<and> isPlagiarism (demo_result (7/10) (Some (1/2)))"
proof -
  have le: "(1/2 :: real) \<le> 7/10" by simp
  have d2: "detectPlagiarism (demo_engine (7/10)) demo_detector (demo_input ''a.pas'') (demo_input ''b.pas'') (Some (7/10))
       = Inr (demo_result (7/10) (Some (7/10)))" by (rule demo_detect)
  have p2: "isPlagiarism (demo_result (7/10) (Some (7/10)))"
    using detect_isPlagiarism [OF d2] by (simp add: demo_result_fields)
  from threshold_monotonicity [OF le d2 p2] le d2 p2
  show ?thesis by (auto simp: demo_detect)
qed


subsection \<open>The loops of the batch\<close>

lemma batch_inner_Inr:
  "batch_inner engine this ct fileI rest (rs, n, s) = Inr (rs', n', s') \<Longrightarrow>
     \<exists>new. rs' = rs @ new \<and> n' = n + length new
         \<and> s' = s + length (filter isPlagiarism new)
         \<and> list_all2 (\<lambda>fileJ r. detectPlagiarism engine this fileI fileJ ct = Inr r) rest new"
proof (induction rest arbitrary: rs n s)
  case Nil
  then show ?case by simp
next
  case (Cons fileJ rest)
  from Cons.prems obtain r where
    r: "detectPlagiarism engine this fileI fileJ ct = Inr r"
    and rec: "batch_inner engine this ct fileI rest
                (rs @ [r], n + 1, if isPlagiarism r then s + 1 else s) = Inr (rs', n', s')"
    by (auto split: sum.splits)
  from Cons.IH [OF rec] obtain new where
    new: "rs' = (rs @ [r]) @ new" "n' = n + 1 + length new"
         "s' = (if isPlagiarism r then s + 1 else s) + length (filter isPlagiarism new)"
         "list_all2 (\<lambda>fileJ r. detectPlagiarism engine this fileI fileJ ct = Inr r) rest new"
    by blast
  show ?case
  proof (intro exI conjI)
    show "rs' = rs @ (r # new)" using new(1) by simp
    show "n' = n + length (r # new)" using new(2) by simp
    show "s' = s + length (filter isPlagiarism (r # new))" using new(3) by simp
    show "list_all2 (\<lambda>fileJ r. detectPlagiarism engine this fileI fileJ ct = Inr r)
            (fileJ # rest) (r # new)" using r new(4) by simp
  qed
qed

lemma batch_inner_total:
  "(\<forall>fileJ \<in> set rest. \<exists>r. detectPlagiarism engine this fileI fileJ ct = Inr r) \<Longrightarrow>
     \<exists>st'. batch_inner engine this ct fileI rest st = Inr st'"
proof (induction rest arbitrary: st)
  case Nil
  then show ?case by (cases st) simp
next
  case (Cons fileJ rest)
  obtain rs n s where st: "st = (rs, n, s)" using prod_cases3 by blast
  from Cons.prems obtain r where "detectPlagiarism engine this fileI fileJ ct = Inr r"
    by auto
  moreover have "\<forall>fileJ \<in> set rest. \<exists>r. detectPlagiarism engine this fileI fileJ ct = Inr r"
    using Cons.prems by simp
  ultimately show ?case using Cons.IH st by simp
qed

lemma batch_outer_Inr:
  "batch_outer engine this ct files (rs, n, s) = Inr (rs', n', s') \<Longrightarrow>
     \<exists>new. rs' = rs @ new \<and> n' = n + length new
         \<and> s' = s + length (filter isPlagiarism new)
         \<and> list_all2 (pair_ok engine this ct) (all_pairs files) new"
proof (induction files arbitrary: rs n s)
  case Nil
  then show ?case by simp
next
  case (Cons fileI later)
  from Cons.prems obtain st1 where
    inner0: "batch_inner engine this ct fileI later (rs, n, s) = Inr st1"
    and outer0: "batch_outer engine this ct later st1 = Inr (rs', n', s')"
    by (auto split: sum.splits)
  obtain rs1 n1 s1 where st1: "st1 = (rs1, n1, s1)" using prod_cases3 by blast
  note inner = inner0 [unfolded st1] and outer = outer0 [unfolded st1]
  from batch_inner_Inr [OF inner] obtain new1 where
    n1: "rs1 = rs @ new1" "n1 = n + length new1" "s1 = s + length (filter isPlagiarism new1)"
        "list_all2 (\<lambda>fileJ r. detectPlagiarism engine this fileI fileJ ct = Inr r) later new1"
    by blast
  from Cons.IH [OF outer] obtain new2 where
    n2: "rs' = rs1 @ new2" "n' = n1 + length new2" "s' = s1 + length (filter isPlagiarism new2)"
        "list_all2 (pair_ok engine this ct) (all_pairs later) new2"
    by blast
  have l1: "list_all2 (pair_ok engine this ct) (map (Pair fileI) later) new1"
    using n1(4) by (simp add: list_all2_map1 pair_ok_def)
  show ?case
  proof (intro exI conjI)
    show "rs' = rs @ (new1 @ new2)" using n1(1) n2(1) by simp
    show "n' = n + length (new1 @ new2)" using n1(2) n2(2) by simp
    show "s' = s + length (filter isPlagiarism (new1 @ new2))" using n1(3) n2(3) by simp
    show "list_all2 (pair_ok engine this ct) (all_pairs (fileI # later)) (new1 @ new2)"
      using l1 n2(4) by (simp add: list_all2_appendI)
  qed
qed

lemma batch_outer_total:
  "(\<forall>p \<in> set (all_pairs files). \<exists>r. pair_ok engine this ct p r) \<Longrightarrow>
     \<exists>st'. batch_outer engine this ct files st = Inr st'"
proof (induction files arbitrary: st)
  case Nil
  then show ?case by (cases st) simp
next
  case (Cons fileI later)
  have "\<forall>fileJ \<in> set later. \<exists>r. detectPlagiarism engine this fileI fileJ ct = Inr r"
  proof
    fix fileJ assume "fileJ \<in> set later"
    then have "(fileI, fileJ) \<in> set (all_pairs (fileI # later))" by simp
    with Cons.prems have "\<exists>r. pair_ok engine this ct (fileI, fileJ) r" by blast
    then show "\<exists>r. detectPlagiarism engine this fileI fileJ ct = Inr r"
      by (simp add: pair_ok_def)
  qed
  then obtain st1 where "batch_inner engine this ct fileI later st = Inr st1"
    using batch_inner_total by blast
  moreover have "\<exists>st'. batch_outer engine this ct later st1 = Inr st'"
    using Cons.IH Cons.prems by simp
  ultimately show ?case by simp
qed



lemma batch_Inr:
  assumes "detectBatchPlagiarism engine this files ct = Inr b"
  obtains rs where
    "list_all2 (pair_ok engine this ct) (all_pairs files) rs"
    "results b = sort_key (\<lambda>r. - overallSimilarity r) rs"
    "threshold b = js_nullish ct (calculateBatchThreshold rs)"
    "totalComparisons b = length rs"
    "suspiciousPairs b = length (filter isPlagiarism rs)"
proof -
  from assms obtain st where
    st: "batch_outer engine this ct files ([], 0, 0) = Inr st"
    by (auto simp: detectBatchPlagiarism_def split: sum.splits)
  obtain rs n s where st3: "st = (rs, n, s)" using prod_cases3 by blast
  from batch_outer_Inr [OF st [unfolded st3]]
  have "list_all2 (pair_ok engine this ct) (all_pairs files) rs"
    and "n = length rs" and "s = length (filter isPlagiarism rs)"
    by auto
  moreover from assms st st3
  have "b = \<lparr> results = sort_key (\<lambda>r. - overallSimilarity r) rs,
              threshold = js_nullish ct (calculateBatchThreshold rs),
              totalComparisons = n, suspiciousPairs = s \<rparr>"
    by (simp add: detectBatchPlagiarism_def Let_def)
  ultimately show ?thesis using that by simp
qed

lemma batch_total:
  assumes "\<forall>p \<in> set (all_pairs files). \<exists>r. pair_ok engine this ct p r"
  shows "\<exists>b. detectBatchPlagiarism engine this files ct = Inr b"
proof -
  from batch_outer_total [OF assms] obtain st where
    "batch_outer engine this ct files ([], 0, 0) = Inr st" by blast
  then show ?thesis
    by (cases st) (simp add: detectBatchPlagiarism_def Let_def)
qed

lemma batch_result_is_pair_result:
  assumes "detectBatchPlagiarism engine this files ct = Inr b"
      and "r \<in> set (results b)"
  shows "\<exists>p \<in> set (all_pairs files). pair_ok engine this ct p r"
proof -
  obtain rs where rs: "list_all2 (pair_ok engine this ct) (all_pairs files) rs"
    and res: "results b = sort_key (\<lambda>r. - overallSimilarity r) rs"
    by (rule batch_Inr [OF assms(1)])
  from assms(2) res have "r \<in> set rs" by simp
  then obtain i where "i < length rs" "rs ! i = r" by (auto simp: in_set_conv_nth)
  with rs have "i < length (all_pairs files)" "pair_ok engine this ct (all_pairs files ! i) r"
    by (auto simp: list_all2_conv_all_nth)
  then show ?thesis by (metis nth_mem)
qed


text \<open>
  Claim C10. In a batch without a threshold of the caller, the verdict of every pair is
  taken with the adaptive threshold of that pair; the threshold of the batch, computed
  after all comparisons, enters neither a verdict nor \<open>suspiciousPairs\<close>, which is the
  number of results whose verdict is plagiarism.
\<close>

theorem batch_verdicts_use_pair_threshold:
  assumes "detectBatchPlagiarism engine this files None = Inr b"
  shows "(\<forall>r \<in> set (results b).
            isPlagiarism r =
              (overallSimilarity r \<ge>
                 calculateAdaptiveThreshold (syntacticSimilarity r) (length (mappedFragments r))))
       \<and> suspiciousPairs b = length (filter isPlagiarism (results b))"
proof
  show "\<forall>r \<in> set (results b).
            isPlagiarism r =
              (overallSimilarity r \<ge>
                 calculateAdaptiveThreshold (syntacticSimilarity r) (length (mappedFragments r)))"
  proof
    fix r assume "r \<in> set (results b)"
    from batch_result_is_pair_result [OF assms this] obtain p where
      "detectPlagiarism engine this (fst p) (snd p) None = Inr r"
      by (auto simp: pair_ok_def)
    from detect_isPlagiarism [OF this]
    show "isPlagiarism r =
              (overallSimilarity r \<ge>
                 calculateAdaptiveThreshold (syntacticSimilarity r) (length (mappedFragments r)))"
      by simp
  qed
next
  obtain rs where res: "results b = sort_key (\<lambda>r. - overallSimilarity r) rs"
    and s: "suspiciousPairs b = length (filter isPlagiarism rs)"
    by (rule batch_Inr [OF assms])
  have "mset (filter isPlagiarism (results b)) = mset (filter isPlagiarism rs)"
    unfolding res by (simp add: mset_filter)
  then have "length (filter isPlagiarism (results b)) = length (filter isPlagiarism rs)"
    by (metis size_mset)
  with s show "suspiciousPairs b = length (filter isPlagiarism (results b))" by simp
qed


lemma demo_batch_detect:
  "detectBatchPlagiarism (demo_engine s) demo_detector
     [demo_input ''a.pas'', demo_input ''b.pas''] ct = Inr (demo_batch s ct)"
proof -
  have "\<forall>p \<in> set (all_pairs [demo_input ''a.pas'', demo_input ''b.pas'']).
          \<exists>r. pair_ok (demo_engine s) demo_detector ct p r"
    by (simp add: pair_ok_def demo_detect)
  from batch_total [OF this] show ?thesis by (auto simp: demo_batch_def)
qed

lemma demo_batch_fields:
  "results (demo_batch s ct) = [demo_result s ct]"
  "threshold (demo_batch s ct) = js_nullish ct (calculateBatchThreshold [demo_result s ct])"
  "totalComparisons (demo_batch s ct) = 1"
  "suspiciousPairs (demo_batch s ct) = length (filter isPlagiarism [demo_result s ct])"
proof -
  obtain rs where
    rs: "list_all2 (pair_ok (demo_engine s) demo_detector ct)
           (all_pairs [demo_input ''a.pas'', demo_input ''b.pas'']) rs"
    and f: "results (demo_batch s ct) = sort_key (\<lambda>r. - overallSimilarity r) rs"
      "threshold (demo_batch s ct) = js_nullish ct (calculateBatchThreshold rs)"
      "totalComparisons (demo_batch s ct) = length rs"
      "suspiciousPairs (demo_batch s ct) = length (filter isPlagiarism rs)"
    by (rule batch_Inr [OF demo_batch_detect])
  from rs have "rs = [demo_result s ct]"
    by (auto simp: list_all2_Cons1 pair_ok_def demo_detect)
  with f show "results (demo_batch s ct) = [demo_result s ct]"
    "threshold (demo_batch s ct) = js_nullish ct (calculateBatchThreshold [demo_result s ct])"
    "totalComparisons (demo_batch s ct) = 1"
    "suspiciousPairs (demo_batch s ct) = length (filter isPlagiarism [demo_result s ct])"
    by simp_all
qed

lemma batch_threshold_single:
  "calculateBatchThreshold [r] = min (max 0.25 (overallSimilarity r)) 0.8"
  by (simp add: calculateBatchThreshold_def Let_def)

lemma demo_not_plagiarism: "\<not> isPlagiarism (demo_result (7/25) None)"
  using detect_isPlagiarism [OF demo_detect [of "7/25" None]]
  by (simp add: demo_result_fields calculateAdaptiveThreshold_def)

theorem batch_verdicts_use_pair_threshold_witness:
  "detectBatchPlagiarism (demo_engine (7/25)) demo_detector
     [demo_input ''a.pas'', demo_input ''b.pas''] None = Inr (demo_batch (7/25) None)
   \<and> results (demo_batch (7/25) None) = [demo_result (7/25) None]
   \<and> overallSimilarity (demo_result (7/25) None) = 7/25
   \<and> threshold (demo_batch (7/25) None) = 7/25
   \<and> isPlagiarism (demo_result (7/25) None) = (7/25 \<ge> (3/10 :: real))
   \<and> suspiciousPairs (demo_batch (7/25) None) = 0"
  using batch_verdicts_use_pair_threshold [OF demo_batch_detect [of "7/25" None]]
  by (simp add: demo_batch_detect demo_batch_fields demo_result_fields batch_threshold_single
      demo_not_plagiarism)

subsection \<open>The threshold of the batch\<close>

lemma foldl_plus_sum_list:
  "foldl (\<lambda>sum x. sum + g x) a xs = a + sum_list (map g xs)" for a :: real
  by (induction xs arbitrary: a) simp_all

lemma sum_list_map_mset_cong:
  "mset xs = mset ys \<Longrightarrow> sum_list (map g xs) = sum_list (map g ys)" for g :: "real \<Rightarrow> real"
  by (metis mset_map sum_mset_sum_list)

lemma clamp_min_max: "min (max 0.25 x) 0.8 = clamp x 0.25 0.8"
  by (simp add: clamp_def)

lemma calculateBatchThreshold_clamp:
  assumes "rs \<noteq> []" and "mset xs = mset (map overallSimilarity rs)"
  shows "calculateBatchThreshold rs = clamp (mean xs + 1.5 * stddev xs) 0.25 0.8"
proof -
  define ys where "ys = sort_key (\<lambda>x. - x) (map overallSimilarity rs)"
  have m: "mset ys = mset xs" by (simp add: ys_def assms(2))
  have len: "length ys = length xs" using m by (metis size_mset)
  have s1: "sum_list ys = sum_list xs"
    using sum_list_map_mset_cong [OF m, of "\<lambda>x. x"] by simp
  have mean_eq: "foldl (\<lambda>sum sim. sum + sim) 0 ys / real (length ys) = mean xs"
    using foldl_plus_sum_list [of "\<lambda>x. x" 0 ys] by (simp add: mean_def s1 len)
  have var_eq: "foldl (\<lambda>sum sim. sum + (sim - mean xs) ^ 2) 0 ys / real (length ys)
                  = sum_list (map (\<lambda>x. (x - mean xs) ^ 2) xs) / real (length xs)"
    using foldl_plus_sum_list [of "\<lambda>x. (x - mean xs) ^ 2" 0 ys]
      sum_list_map_mset_cong [OF m, of "\<lambda>x. (x - mean xs) ^ 2"]
    by (simp add: len)
  have "calculateBatchThreshold rs =
          min (max 0.25 (mean xs + 1.5 * sqrt (sum_list (map (\<lambda>x. (x - mean xs) ^ 2) xs) / real (length xs)))) 0.8"
    using assms(1) unfolding calculateBatchThreshold_def Let_def ys_def [symmetric] mean_eq var_eq
    by simp
  then show ?thesis unfolding clamp_min_max stddev_def .
qed

text \<open>
  Claim C8. Without a threshold of the caller, the threshold reported by
  \<open>detectBatchPlagiarism\<close> for a non-empty list of results is
  \<open>clamp(mean + 1.5 stddev, 0.25, 0.8)\<close>, the mean and the (population) standard deviation
  being those of the \<open>overallSimilarity\<close> values of all results.
\<close>

theorem batch_threshold_is_clamped_mean_plus_stddev:
  assumes "detectBatchPlagiarism engine this files None = Inr b"
      and "results b \<noteq> []"
  shows "threshold b =
           clamp (mean (map overallSimilarity (results b))
                  + 1.5 * stddev (map overallSimilarity (results b))) 0.25 0.8"
proof -
  obtain rs where res: "results b = sort_key (\<lambda>r. - overallSimilarity r) rs"
    and thr: "threshold b = js_nullish None (calculateBatchThreshold rs)"
    by (rule batch_Inr [OF assms(1)])
  from assms(2) res have ne: "rs \<noteq> []" by auto
  have "mset (map overallSimilarity (results b)) = mset (map overallSimilarity rs)"
    unfolding res by simp
  from calculateBatchThreshold_clamp [OF ne this] thr show ?thesis by simp
qed

theorem batch_threshold_witness:
  "detectBatchPlagiarism (demo_engine (9/10)) demo_detector
     [demo_input ''a.pas'', demo_input ''b.pas''] None = Inr (demo_batch (9/10) None)
   \<and> results (demo_batch (9/10) None) \<noteq> []
   \<and> map overallSimilarity (results (demo_batch (9/10) None)) = [9/10]
   \<and> threshold (demo_batch (9/10) None) = 8/10"
proof -
  have ne: "results (demo_batch (9/10) None) \<noteq> []" by (simp add: demo_batch_fields)
  show ?thesis
    using batch_threshold_is_clamped_mean_plus_stddev [OF demo_batch_detect [of "9/10" None] ne]
    by (simp add: demo_batch_detect demo_batch_fields demo_result_fields
        mean_def stddev_def clamp_def)
qed


subsection \<open>Errors of the tokenizer in a batch\<close>
















subsection \<open>Line numbering\<close>

lemma split_nl_ne: "split_nl s \<noteq> []"
  by (induction s) (auto split: list.splits)

lemma split_nl_no_nl: "newline \<notin> set s \<Longrightarrow> split_nl s = [s]"
  by (induction s) auto

lemma split_nl_append:
  "newline \<notin> set x \<Longrightarrow> split_nl (x @ newline # rest) = x # split_nl rest"
  by (induction x) auto

lemma split_nl_lines_no_nl: "l \<in> set (split_nl s) \<Longrightarrow> newline \<notin> set l"
proof (induction s arbitrary: l)
  case Nil
  then show ?case by simp
next
  case (Cons c cs)
  obtain m ms where ms: "split_nl cs = m # ms"
    using split_nl_ne [of cs] by (cases "split_nl cs") auto
  show ?case
  proof (cases "c = newline")
    case True
    with Cons show ?thesis by auto
  next
    case False
    with Cons.prems ms have "l = c # m \<or> l \<in> set ms" by auto
    moreover have "newline \<notin> set m" "\<forall>k \<in> set ms. newline \<notin> set k"
      using Cons.IH ms by auto
    ultimately show ?thesis using False by auto
  qed
qed

lemma split_join:
  "ls \<noteq> [] \<Longrightarrow> \<forall>l \<in> set ls. newline \<notin> set l \<Longrightarrow> split_nl (join_nl ls) = ls"
  unfolding join_nl_def
proof (induction "[newline]" ls rule: join_with.induct)
  case 1
  then show ?case by simp
next
  case (2 x)
  then show ?case by (simp add: split_nl_no_nl)
next
  case (3 x y ys)
  then show ?case by (simp add: split_nl_append)
qed

lemma digit_char_not_newline: "digit_char d \<noteq> newline"
proof -
  have "d mod 10 < length ''0123456789''" by simp
  then have "digit_char d \<in> set ''0123456789''"
    unfolding digit_char_def by (rule nth_mem)
  then show ?thesis by (auto simp: newline_def)
qed

lemma nat_digits_no_newline: "newline \<notin> set (nat_digits n)"
proof (induction n rule: nat_digits.induct)
  case (1 n)
  then show ?case
    by (subst nat_digits.simps) (auto simp: digit_char_not_newline [symmetric])
qed

lemma toString_no_newline: "newline \<notin> set (toString n)"
  using nat_digits_no_newline [of "nat n"] nat_digits_no_newline [of "nat (- n)"]
  by (auto simp: toString_def newline_def)

lemma numberLine_no_newline:
  "newline \<notin> set line \<Longrightarrow> newline \<notin> set (numberLine startLine index line)"
  using toString_no_newline [of "startLine + int index"]
  by (auto simp: numberLine_def padStart_def Let_def newline_def)

lemma numbered_lines:
  "length (map (\<lambda>(index, line). numberLine startLine index line) (enumerate 0 ls)) = length ls"
  "i < length ls \<Longrightarrow>
     map (\<lambda>(index, line). numberLine startLine index line) (enumerate 0 ls) ! i
       = numberLine startLine i (ls ! i)"
  by (simp_all add: nth_enumerate_eq)

lemma split_addLineNumbers:
  "split_nl (addLineNumbers code startLine)
     = map (\<lambda>(index, line). numberLine startLine index line) (enumerate 0 (split_nl code))"
proof -
  let ?ls = "map (\<lambda>(index, line). numberLine startLine index line) (enumerate 0 (split_nl code))"
  have "length ?ls = length (split_nl code)" by simp
  then have "?ls \<noteq> []" using split_nl_ne [of code] by (metis length_0_conv)
  moreover have "\<forall>l \<in> set ?ls. newline \<notin> set l"
  proof
    fix l assume "l \<in> set ?ls"
    then obtain index line where "(index, line) \<in> set (enumerate 0 (split_nl code))"
      "l = numberLine startLine index line" by auto
    moreover from this(1) have "line \<in> set (split_nl code)"
      by (auto simp: in_set_enumerate_eq)
    ultimately show "newline \<notin> set l"
      using split_nl_lines_no_nl numberLine_no_newline by blast
  qed
  ultimately show ?thesis
    unfolding addLineNumbers_def Let_def by (rule split_join)
qed

text \<open>
  Claim C7, as amended. In the rendering with line numbers, the snippet keeps its lines, and
  line \<open>i\<close> of the snippet is prefixed with the decimal number \<open>startLine + i\<close>, padded with
  blanks on the left to a width of three characters (a longer number is kept whole),
  followed by \<open>: \<close>.
\<close>

theorem line_numbers_prefix_each_line:
  assumes "i < length (split_nl code)"
  shows "length (split_nl (addLineNumbers code startLine)) = length (split_nl code)
       \<and> split_nl (addLineNumbers code startLine) ! i
           = replicate (3 - length (toString (startLine + int i))) CHR '' ''
             @ toString (startLine + int i) @ '': '' @ split_nl code ! i"
  unfolding split_addLineNumbers
  using assms by (simp add: nth_enumerate_eq numberLine_def padStart_def Let_def)

lemma toString_10: "toString 10 = ''10''"
  by (simp add: toString_def nat_digits.simps digit_char_def)

lemma split_two_lines: "split_nl two_lines = [''ab'', ''c'']"
  by (simp add: two_lines_def newline_def)

theorem line_numbers_prefix_witness:
  "1 < length (split_nl two_lines)
   \<and> length (split_nl (addLineNumbers two_lines 9)) = 2
   \<and> split_nl (addLineNumbers two_lines 9) ! 1 = '' 10: c''"
proof -
  have h: "1 < length (split_nl two_lines)" by (simp add: split_two_lines)
  from line_numbers_prefix_each_line [OF h, of 9] h show ?thesis
    by (simp add: split_two_lines toString_10)
qed

text \<open>
  Claim C7 as the specification words it (the number padded on the right) fails on the
  one-line snippet \<open>x\<close> numbered from \<open>1\<close>: the detector renders \<open>  1: x\<close>, the blanks
  before the number.
\<close>

theorem line_numbers_right_padded_counterexample:
  "split_nl (addLineNumbers ''x'' 1) ! 0 = ''  1: x''
   \<and> spec_numberLine 1 0 ''x'' = ''1  : x''
   \<and> split_nl (addLineNumbers ''x'' 1) ! 0 \<noteq> spec_numberLine 1 0 ''x''"
proof -
  have t: "toString 1 = ''1''"
    by (simp add: toString_def nat_digits.simps digit_char_def)
  have s: "split_nl ''x'' = [''x'']" by (simp add: newline_def)
  have a: "split_nl (addLineNumbers ''x'' 1) ! 0 = ''  1: x''"
    unfolding split_addLineNumbers s
    by (simp add: numberLine_def padStart_def t numeral_2_eq_2)
  have b: "spec_numberLine 1 0 ''x'' = ''1  : x''"
    by (simp add: spec_numberLine_def padEnd_def t numeral_2_eq_2)
  from a b show ?thesis by simp
qed


end
